theory Spec2Isabelle
  imports Complex_Main "HOL-Library.Multiset" "HOL-Library.Sublist"
begin

section \<open>Python values and failures\<close>

text \<open>
  The two notebooks are straight-line Python scripts around calls into client, geometry
  and plotting libraries. A raised exception is a value: every operation that can raise
  returns \<open>py_error + 'a\<close>, with \<open>Inl\<close> for the exception. A failure inside a
  library (network error, missing dataset, malformed record) is \<open>LibraryError\<close> with
  the library's message. \<open>TypeError\<close> is raised where a value is not of the kind
  an operation needs.
\<close>

datatype py_error = IndexError | ValueError | TypeError | LibraryError string

text \<open>
  \<^verbatim>\<open>xs[i]\<close> on a Python sequence: a negative index counts from the end, and an index
  outside \<open>-len .. len-1\<close> raises IndexError.
\<close>

definition py_index :: "'a list \<Rightarrow> int \<Rightarrow> py_error + 'a" where
  "py_index xs i =
     (if 0 \<le> i \<and> i < int (length xs) then Inr (xs ! nat i)
      else if i < 0 \<and> - int (length xs) \<le> i then Inr (xs ! nat (int (length xs) + i))
      else Inl IndexError)"

section \<open>satellite\_sfc\_obs: \<open>get_goes_image\<close>\<close>

text \<open>
  \<^verbatim>\<open>
  def get_goes_image(date=datetime.utcnow(), channel=8, region='CONUS'):
      cat = TDSCatalog('https://.../{}/Channel{:02d}/{:%Y%m%d}/catalog.xml'
                       .format(region, channel, date))
      # Get data from about an hour ago.
      if len(list(cat.datasets)) < 10:
          file_num = len(list(cat.datasets))
      else:
          file_num = 10
      ds = cat.datasets[file_num]  # Get most recent dataset
      ds = ds.remote_access(use_xarray=True)
      return ds
  \<close>
  The catalog client \<open>TDSCatalog\<close> and the dataset method \<open>remote_access\<close> belong to
  the catalog library; they are parameters here. The client maps the three values the URL
  is formatted from (region, channel, date) to the catalog's dataset collection, in catalog
  order, or fails. \<open>cat.datasets\<close> is that collection: \<open>list(cat.datasets)\<close> has one
  entry per dataset and \<open>cat.datasets[n]\<close> is positional indexing.
\<close>

definition file_num :: "'d list \<Rightarrow> int" where
  "file_num datasets =
     (if int (length datasets) < 10 then int (length datasets) else 10)"

definition get_goes_image ::
  "(string \<Rightarrow> nat \<Rightarrow> 't \<Rightarrow> py_error + 'd list) \<Rightarrow> ('d \<Rightarrow> py_error + 'x) \<Rightarrow>
   't \<Rightarrow> nat \<Rightarrow> string \<Rightarrow> py_error + 'x" where
  "get_goes_image TDSCatalog remote_access date channel region =
     (case TDSCatalog region channel date of
        Inl e \<Rightarrow> Inl e
      | Inr datasets \<Rightarrow>
          (case py_index datasets (file_num datasets) of
             Inl e \<Rightarrow> Inl e
           | Inr ds \<Rightarrow> remote_access ds))"

section \<open>Python's \<open>int\<close> of a string\<close>

text \<open>
  \<^verbatim>\<open>int(s)\<close> in base 10: surrounding whitespace is dropped, then comes an optional sign
  and decimal digits, where single underscores may stand between digits. Anything else
  raises ValueError. Characters are code points below 256; the whitespace among them is
  tab, line feed, vertical tab, form feed, carriage return, space, 133 and 160.
\<close>

definition py_isspace :: "char \<Rightarrow> bool" where
  "py_isspace c = (of_char c \<in> {9, 10, 11, 12, 13, 32, 133, 160 :: nat})"

definition py_isdigit :: "char \<Rightarrow> bool" where
  "py_isdigit c = (48 \<le> (of_char c :: nat) \<and> (of_char c :: nat) \<le> 57)"

definition py_strip :: "string \<Rightarrow> string" where
  "py_strip s = rev (dropWhile py_isspace (rev (dropWhile py_isspace s)))"

text \<open>
  The digits, most significant first; \<open>prev\<close> says that the character before was a digit,
  which an underscore and the end of the string both need.
\<close>

fun py_digits :: "bool \<Rightarrow> int \<Rightarrow> string \<Rightarrow> int option" where
  "py_digits prev acc [] = (if prev then Some acc else None)"
| "py_digits prev acc (c # cs) =
     (if py_isdigit c then py_digits True (10 * acc + (int (of_char c) - 48)) cs
      else if c = CHR ''_'' \<and> prev then py_digits False acc cs
      else None)"

definition py_int :: "string \<Rightarrow> py_error + int" where
  "py_int s =
     (let t = py_strip s;
          r = (case t of
                 [] \<Rightarrow> None
               | c # cs \<Rightarrow>
                   if c = CHR ''-'' then map_option uminus (py_digits False 0 cs)
                   else if c = CHR ''+'' then py_digits False 0 cs
                   else py_digits False 0 t)
      in case r of None \<Rightarrow> Inl ValueError | Some n \<Rightarrow> Inr n)"


section \<open>Maps notebook: nearby cities\<close>

text \<open>
  A record of the city table as the request returns it, with the three parameters the
  request asks for and its point geometry: \<open>population ob\<close> is
  \<^verbatim>\<open>ob.getString("population")\<close>, \<open>prog_disc ob\<close> is \<^verbatim>\<open>ob.getNumber("prog_disc")\<close>,
  \<open>name ob\<close> is \<^verbatim>\<open>ob.getString("name")\<close> and \<open>geometry ob\<close> is \<^verbatim>\<open>ob.getGeometry()\<close>.
\<close>

record 'g city_ob =
  population :: string
  prog_disc :: int
  name :: string
  geometry :: 'g

text \<open>
  \<^verbatim>\<open>
  citylist = []
  cityname = []
  for ob in cities:
      if ob.getString("population"):
          if ob.getNumber("prog_disc") > 50:
              if int(ob.getString("population")) > 5000:
                  citylist.append(ob.getGeometry())
                  cityname.append(ob.getString("name"))
  \<close>
  The loop threads the two lists. A non-empty string is true. \<open>int\<close> may raise, which
  ends the loop.
\<close>

fun city_filter ::
  "'g city_ob list \<Rightarrow> 'g list \<times> string list \<Rightarrow> py_error + 'g list \<times> string list" where
  "city_filter [] (citylist, cityname) = Inr (citylist, cityname)"
| "city_filter (ob # cities) (citylist, cityname) =
     (if population ob \<noteq> [] then
        if prog_disc ob > 50 then
          (case py_int (population ob) of
             Inl e \<Rightarrow> Inl e
           | Inr n \<Rightarrow>
               if n > 5000 then
                 city_filter cities (citylist @ [geometry ob], cityname @ [name ob])
               else city_filter cities (citylist, cityname))
        else city_filter cities (citylist, cityname)
      else city_filter cities (citylist, cityname))"

text \<open>
  \<^verbatim>\<open>
  ax.scatter([point.x for point in citylist], [point.y for point in citylist], ...)
  for i, txt in enumerate(cityname):
      ax.annotate(txt, (citylist[i].x,citylist[i].y), ...)
  \<close>
  The markers drawn are the points of \<open>citylist\<close>. The annotation loop pairs each label
  with the point at the same index of \<open>citylist\<close>; the indexing may raise.
\<close>

fun annotate_loop ::
  "'g list \<Rightarrow> (nat \<times> string) list \<Rightarrow> (string \<times> 'g) list \<Rightarrow> py_error + (string \<times> 'g) list" where
  "annotate_loop citylist [] annotations = Inr annotations"
| "annotate_loop citylist ((i, txt) # rest) annotations =
     (case py_index citylist (int i) of
        Inl e \<Rightarrow> Inl e
      | Inr point \<Rightarrow> annotate_loop citylist rest (annotations @ [(txt, point)]))"

definition plot_cities :: "'g list \<Rightarrow> string list \<Rightarrow> py_error + 'g list \<times> (string \<times> 'g) list" where
  "plot_cities citylist cityname =
     (case annotate_loop citylist (enumerate 0 cityname) [] of
        Inl e \<Rightarrow> Inl e
      | Inr annotations \<Rightarrow> Inr (citylist, annotations))"

text \<open>
  The condition of the source's three nested tests, as one predicate on a record: the
  population string is not empty, \<open>prog_disc\<close> is above 50, and the population parses to
  an integer above 5000.
\<close>

definition plotted_city :: "'g city_ob \<Rightarrow> bool" where
  "plotted_city ob =
     (population ob \<noteq> [] \<and> prog_disc ob > 50 \<and>
      (case py_int (population ob) of Inl e \<Rightarrow> False | Inr n \<Rightarrow> n > 5000))"

section \<open>satellite\_sfc\_obs: the two temperature layers\<close>

text \<open>
  A value of a float column: a number, an infinity, or NaN, which is what the METAR parser
  gives for a field missing from a report. A comparison with NaN is false, whichever way
  it is written. The comparisons are those of the notebook, against a finite constant.
\<close>

datatype pyfloat = NaN | NegInf | Finite real | PosInf

fun fgt :: "pyfloat \<Rightarrow> real \<Rightarrow> bool" where
  "fgt NaN c = False"
| "fgt NegInf c = False"
| "fgt (Finite x) c = (x > c)"
| "fgt PosInf c = True"

fun flt :: "pyfloat \<Rightarrow> real \<Rightarrow> bool" where
  "flt NaN c = False"
| "flt NegInf c = True"
| "flt (Finite x) c = (x < c)"
| "flt PosInf c = False"

fun fle :: "pyfloat \<Rightarrow> real \<Rightarrow> bool" where
  "fle NaN c = False"
| "fle NegInf c = True"
| "fle (Finite x) c = (x \<le> c)"
| "fle PosInf c = False"

text \<open>
  A row of the dataframe after the column \<open>tmpf\<close> has been added. \<open>df[mask]\<close> with a
  boolean mask keeps the rows where the mask is true, in order.
  \<^verbatim>\<open>
  df = df[(df.latitude.values > 25) & (df.latitude.values < 60)]
  df = df[(df.longitude.values < -60) & (df.longitude.values > -150)]
  ...
  obs.data = df[df.tmpf > 32]
  ...
  obs2.data = df[df.tmpf <= 32]
  \<close>
\<close>

record metar_row =
  station_id :: string
  latitude :: pyfloat
  longitude :: pyfloat
  tmpf :: pyfloat

definition conus :: "metar_row list \<Rightarrow> metar_row list" where
  "conus df =
     (let df1 = filter (\<lambda>r. fgt (latitude r) 25 \<and> flt (latitude r) 60) df
      in filter (\<lambda>r. flt (longitude r) (- 60) \<and> fgt (longitude r) (- 150)) df1)"

definition obs_data :: "metar_row list \<Rightarrow> metar_row list" where
  "obs_data df = filter (\<lambda>r. fgt (tmpf r) 32) df"

definition obs2_data :: "metar_row list \<Rightarrow> metar_row list" where
  "obs2_data df = filter (\<lambda>r. fle (tmpf r) 32) df"

section \<open>Maps notebook: what the plotting loops hand to the renderer\<close>

text \<open>
  The loop that draws the counties, and in the same words the CWA boundary and the lakes:
  \<^verbatim>\<open>
  for i, geom in enumerate(counties):
      cbounds = Polygon(geom)
      intersection = cbounds.intersection
      geoms = (intersection(geom)
           for geom in counties
           if cbounds.intersects(geom))
      shape_feature = ShapelyFeature(geoms,ccrs.PlateCarree(), ...)
      ax.add_feature(shape_feature)
  \<close>
  \<open>Polygon\<close>, \<open>intersects\<close>, \<open>intersection\<close>, \<open>ShapelyFeature\<close> and \<open>add_feature\<close>
  are the libraries'; they are parameters and each of them may raise (\<open>Polygon\<close> does so
  for a geometry of several parts). \<open>counties\<close> is the list of the elements the loop
  goes through, whatever \<open>np.append\<close> has made of the geometries fetched. The inner
  \<open>geom\<close> is the generator's own variable and runs over all of \<open>counties\<close>.
  \<open>ShapelyFeature\<close> runs the generator to its end; \<open>feature_geoms\<close> is that run.
\<close>

fun feature_geoms ::
  "('p \<Rightarrow> 'g \<Rightarrow> py_error + bool) \<Rightarrow> ('p \<Rightarrow> 'g \<Rightarrow> py_error + 'g) \<Rightarrow> 'p \<Rightarrow> 'g list \<Rightarrow>
   py_error + 'g list" where
  "feature_geoms intersects intersection cbounds [] = Inr []"
| "feature_geoms intersects intersection cbounds (geom # counties) =
     (case intersects cbounds geom of
        Inl e \<Rightarrow> Inl e
      | Inr yes \<Rightarrow>
          if yes then
            (case intersection cbounds geom of
               Inl e \<Rightarrow> Inl e
             | Inr part \<Rightarrow>
                 (case feature_geoms intersects intersection cbounds counties of
                    Inl e \<Rightarrow> Inl e
                  | Inr parts \<Rightarrow> Inr (part # parts)))
          else feature_geoms intersects intersection cbounds counties)"

text \<open>The body of the loop for one \<open>geom\<close>: the feature it adds to the axes.\<close>

definition county_feature ::
  "('g \<Rightarrow> py_error + 'p) \<Rightarrow> ('p \<Rightarrow> 'g \<Rightarrow> py_error + bool) \<Rightarrow> ('p \<Rightarrow> 'g \<Rightarrow> py_error + 'g) \<Rightarrow>
   ('g list \<Rightarrow> py_error + 'f) \<Rightarrow> ('f \<Rightarrow> py_error + unit) \<Rightarrow> 'g list \<Rightarrow> 'g \<Rightarrow> py_error + 'f" where
  "county_feature Polygon intersects intersection ShapelyFeature add_feature counties geom =
     (case Polygon geom of
        Inl e \<Rightarrow> Inl e
      | Inr cbounds \<Rightarrow>
          (case feature_geoms intersects intersection cbounds counties of
             Inl e \<Rightarrow> Inl e
           | Inr geoms \<Rightarrow>
               (case ShapelyFeature geoms of
                  Inl e \<Rightarrow> Inl e
                | Inr shape_feature \<Rightarrow>
                    (case add_feature shape_feature of
                       Inl e \<Rightarrow> Inl e
                     | Inr u \<Rightarrow> Inr shape_feature))))"

text \<open>
  The loop, over the elements still to come: the features on the axes when it stops, and
  the exception that stopped it, if any.
\<close>

fun plot_counties ::
  "('g \<Rightarrow> py_error + 'p) \<Rightarrow> ('p \<Rightarrow> 'g \<Rightarrow> py_error + bool) \<Rightarrow> ('p \<Rightarrow> 'g \<Rightarrow> py_error + 'g) \<Rightarrow>
   ('g list \<Rightarrow> py_error + 'f) \<Rightarrow> ('f \<Rightarrow> py_error + unit) \<Rightarrow> 'g list \<Rightarrow> 'g list \<Rightarrow> 'f list \<Rightarrow>
   'f list \<times> py_error option" where
  "plot_counties Polygon intersects intersection ShapelyFeature add_feature counties [] ax =
     (ax, None)"
| "plot_counties Polygon intersects intersection ShapelyFeature add_feature counties
     (geom # rest) ax =
     (case county_feature Polygon intersects intersection ShapelyFeature add_feature
             counties geom of
        Inl e \<Rightarrow> (ax, Some e)
      | Inr shape_feature \<Rightarrow>
          plot_counties Polygon intersects intersection ShapelyFeature add_feature counties
            rest (ax @ [shape_feature]))"

text \<open>
  The loop that draws the interstates, and in the same words the rivers:
  \<^verbatim>\<open>
  for ob in interstates:
      shape_feature = ShapelyFeature(ob.getGeometry(),ccrs.PlateCarree(), ...)
      ax.add_feature(shape_feature)
  \<close>
  Here \<open>ShapelyFeature\<close> is given one geometry.
\<close>

definition interstate_feature ::
  "('ob \<Rightarrow> py_error + 'g) \<Rightarrow> ('g \<Rightarrow> py_error + 'f) \<Rightarrow> ('f \<Rightarrow> py_error + unit) \<Rightarrow> 'ob \<Rightarrow>
   py_error + 'f" where
  "interstate_feature getGeometry ShapelyFeature add_feature ob =
     (case getGeometry ob of
        Inl e \<Rightarrow> Inl e
      | Inr geo \<Rightarrow>
          (case ShapelyFeature geo of
             Inl e \<Rightarrow> Inl e
           | Inr shape_feature \<Rightarrow>
               (case add_feature shape_feature of
                  Inl e \<Rightarrow> Inl e
                | Inr u \<Rightarrow> Inr shape_feature)))"

fun plot_interstates ::
  "('ob \<Rightarrow> py_error + 'g) \<Rightarrow> ('g \<Rightarrow> py_error + 'f) \<Rightarrow> ('f \<Rightarrow> py_error + unit) \<Rightarrow> 'ob list \<Rightarrow>
   'f list \<Rightarrow> 'f list \<times> py_error option" where
  "plot_interstates getGeometry ShapelyFeature add_feature [] ax = (ax, None)"
| "plot_interstates getGeometry ShapelyFeature add_feature (ob # interstates) ax =
     (case interstate_feature getGeometry ShapelyFeature add_feature ob of
        Inl e \<Rightarrow> (ax, Some e)
      | Inr shape_feature \<Rightarrow>
          plot_interstates getGeometry ShapelyFeature add_feature interstates
            (ax @ [shape_feature]))"

text \<open>
  The reference the specification compares with, in its words: a single pass that visits
  each fetched geometry once, in order, and hands it to the renderer. \<open>render\<close> is what
  is done with one geometry; the pass ends at the first failure.
\<close>

fun until_failure :: "('a \<Rightarrow> py_error + 'f) \<Rightarrow> 'a list \<Rightarrow> 'f list \<times> py_error option" where
  "until_failure render [] = ([], None)"
| "until_failure render (x # xs) =
     (case render x of
        Inl e \<Rightarrow> ([], Some e)
      | Inr shape_feature \<Rightarrow>
          (case until_failure render xs of (features, exc) \<Rightarrow> (shape_feature # features, exc)))"

definition single_pass_reference ::
  "('a \<Rightarrow> py_error + 'f) \<Rightarrow> 'a list \<Rightarrow> 'f list \<Rightarrow> 'f list \<times> py_error option" where
  "single_pass_reference render xs ax =
     (case until_failure render xs of (features, exc) \<Rightarrow> (ax @ features, exc))"

text \<open>
  A geometry library small enough to compute with: closed intervals of integers, which
  intersect when they share a point; a feature is the list of its geometries.
\<close>

definition interval_intersects :: "int \<times> int \<Rightarrow> int \<times> int \<Rightarrow> py_error + bool" where
  "interval_intersects a b = Inr (max (fst a) (fst b) \<le> min (snd a) (snd b))"

definition interval_intersection :: "int \<times> int \<Rightarrow> int \<times> int \<Rightarrow> py_error + int \<times> int" where
  "interval_intersection a b = Inr (max (fst a) (fst b), min (snd a) (snd b))"


section \<open>The notebooks as programs over their libraries\<close>

text \<open>
  Everything the notebooks do beyond moving values around is done by code they call:
  the data-access, catalog, geometry, array and plotting libraries, and the interpreter
  (imports, printing, formatting). What that code does is not in this repository, so it
  is a parameter here: a library \<open>lib\<close> answers every call, given the name of the
  function, its arguments and the state of the world (disk, network, the objects of the
  libraries), with the new state of the world and a result or an exception.

  A value is one of Python's own (\<open>None\<close>, a boolean, an integer, a float, a string, a
  list or tuple) or an object of the libraries, which the notebook cannot look into. A
  keyword argument \<open>k=v\<close> is passed as \<open>VKw k v\<close>.
\<close>

datatype val = VNone | VBool bool | VInt int | VFloat pyfloat | VStr string
  | VList "val list" | VKw string val | VObj nat

type_synonym 'w lib = "string \<Rightarrow> val list \<Rightarrow> 'w \<Rightarrow> 'w \<times> (py_error + val)"

text \<open>
  A run keeps the state of the world and the log of the calls made so far, each with its
  arguments and what came back.
\<close>

datatype event = Event (fn: string) (args: "val list") (res: "py_error + val")

type_synonym ('w, 'a) prog = "'w \<times> event list \<Rightarrow> ('w \<times> event list) \<times> (py_error + 'a)"

























section \<open>The satellite notebook, cell by cell\<close>












section \<open>The maps notebook, cell by cell\<close>























section \<open>What a run's log says\<close>

text \<open>
  The world after the calls of a log, replayed from a given world; and whether every
  result in the log is what the library answers at that point.
\<close>

fun after :: "'w lib \<Rightarrow> 'w \<Rightarrow> event list \<Rightarrow> 'w" where
  "after lib w [] = w"
| "after lib w (ev # evs) = after lib (fst (lib (fn ev) (args ev) w)) evs"

fun genuine :: "'w lib \<Rightarrow> 'w \<Rightarrow> event list \<Rightarrow> bool" where
  "genuine lib w [] = True"
| "genuine lib w (ev # evs) =
     (snd (lib (fn ev) (args ev) w) = res ev \<and> genuine lib (fst (lib (fn ev) (args ev) w)) evs)"

definition succeeded :: "event \<Rightarrow> bool" where
  "succeeded ev = (case res ev of Inl e \<Rightarrow> False | Inr v \<Rightarrow> True)"

text \<open>
  The outcome of a run against its calls: every call but the last has succeeded; a run
  that completes has had no failing call; a run that ends in an exception has either had
  no failing call (the exception is the notebook's own) or ends in the exception of its
  last call.
\<close>

definition outcome_of :: "event list \<Rightarrow> py_error + 'a \<Rightarrow> bool" where
  "outcome_of new r =
     (list_all succeeded (butlast new) \<and>
      (case r of
         Inr x \<Rightarrow> list_all succeeded new
       | Inl e \<Rightarrow> list_all succeeded new \<or> res (last new) = Inl e))"

text \<open>
  A program that acts on the world through calls of the library only: from any world and
  log, the log grows by the calls made, the world is what these calls leave, every call
  satisfies \<open>P\<close>, and the outcome is as above.
\<close>

definition sound :: "'w lib \<Rightarrow> (event \<Rightarrow> bool) \<Rightarrow> ('w, 'a) prog \<Rightarrow> bool" where
  "sound lib P m =
     (\<forall>w tr. \<exists>new.
        fst (fst (m (w, tr))) = after lib w new \<and> snd (fst (m (w, tr))) = tr @ new \<and>
        genuine lib w new \<and> list_all P new \<and> outcome_of new (snd (m (w, tr))))"



text \<open>The paths a log's downloads were given.\<close>

fun download_paths :: "event list \<Rightarrow> string list" where
  "download_paths [] = []"
| "download_paths (ev # evs) =
     (if fn ev = ''.download()''
      then (case args ev of [d, VStr path] \<Rightarrow> path # download_paths evs | _ \<Rightarrow> download_paths evs)
      else download_paths evs)"

text \<open>
  The sequences of calls a program can make, by the names of the functions called: a run
  that completes has made one of the sequences of \<open>L\<close>, a run that ends in an exception
  the beginning of one.
\<close>

definition makes :: "('w, 'a) prog \<Rightarrow> string list set \<Rightarrow> bool" where
  "makes m L =
     (\<forall>w tr. \<exists>new. snd (fst (m (w, tr))) = tr @ new \<and>
        (case snd (m (w, tr)) of
           Inr x \<Rightarrow> map fn new \<in> L
         | Inl e \<Rightarrow> \<exists>l\<in>L. prefix (map fn new) l))"

text \<open>Sequences one after the other; \<open>n\<close> blocks in a row; blocks in a row, any number.\<close>

definition conc :: "'a list set \<Rightarrow> 'a list set \<Rightarrow> 'a list set" where
  "conc A B = {a @ b | a b. a \<in> A \<and> b \<in> B}"

fun blocks :: "'a list set \<Rightarrow> nat \<Rightarrow> 'a list set" where
  "blocks B 0 = {[]}"
| "blocks B (Suc n) = conc B (blocks B n)"


text \<open>A program that makes exactly the calls \<open>ns\<close> has before \<open>rest\<close>.\<close>

definition mk :: "('w, 'a) prog \<Rightarrow> string list \<Rightarrow> string list \<Rightarrow> bool" where
  "mk m ns rest = (\<exists>pre. ns = pre @ rest \<and> makes m {pre})"


section \<open>Libraries small enough to compute with\<close>







section \<open>The stages of a request, read off the log\<close>











section \<open>Programs that act through the library only\<close>













section \<open>The sequences of calls a program makes\<close>










lemma conc_single: "conc {a} {b} = {a @ b}"
  by (auto simp: conc_def)

lemma conc_mono: "A \<subseteq> A' \<Longrightarrow> B \<subseteq> B' \<Longrightarrow> conc A B \<subseteq> conc A' B'"
  by (auto simp: conc_def)

lemma blocks_single: "blocks {b} n = {concat (replicate n b)}"
  by (induction n) (simp_all add: conc_single)









lemma mk_makes: "makes m {pre} \<Longrightarrow> mk m (pre @ rest) rest"
  unfolding mk_def by blast



section \<open>Both notebooks act through the library only\<close>






lemma sound_weaken:
  assumes "sound lib P m" and "\<And>ev. P ev \<Longrightarrow> Q ev"
  shows "sound lib Q m"
  unfolding sound_def
proof (intro allI)
  fix w tr
  from assms(1) obtain new where n: "fst (fst (m (w, tr))) = after lib w new"
    "snd (fst (m (w, tr))) = tr @ new" "genuine lib w new" "list_all P new"
    "outcome_of new (snd (m (w, tr)))"
    unfolding sound_def by blast
  from n(4) assms(2) have "list_all Q new" by (auto simp: list_all_iff)
  with n show "\<exists>new. fst (fst (m (w, tr))) = after lib w new \<and>
      snd (fst (m (w, tr))) = tr @ new \<and> genuine lib w new \<and> list_all Q new \<and>
      outcome_of new (snd (m (w, tr)))"
    by blast
qed


section \<open>The calls of each cell\<close>






































section \<open>Which calls a step makes\<close>




section \<open>What the notebooks leave behind\<close>







lemma download_paths_count:
  "length (download_paths new) \<le> count_list (map fn new) ''.download()''"
  by (induction new) (auto split: list.splits val.splits)














section \<open>Failures of the libraries reach the top level\<close>




section \<open>What the plotting loops hand to the renderer\<close>

lemma plot_counties_single_pass:
  "plot_counties Polygon intersects intersection ShapelyFeature add_feature counties todo ax
     = single_pass_reference
         (county_feature Polygon intersects intersection ShapelyFeature add_feature counties)
         todo ax"
  by (induction todo arbitrary: ax)
     (simp_all add: single_pass_reference_def split: sum.splits prod.splits)

lemma plot_interstates_single_pass:
  "plot_interstates getGeometry ShapelyFeature add_feature obs ax
     = single_pass_reference (interstate_feature getGeometry ShapelyFeature add_feature) obs ax"
  by (induction obs arbitrary: ax)
     (simp_all add: single_pass_reference_def split: sum.splits prod.splits)

lemma feature_geoms_closed:
  "feature_geoms (\<lambda>c g. Inr (meets c g)) (\<lambda>c g. Inr (common c g)) cbounds counties
     = Inr (map (common cbounds) (filter (meets cbounds) counties))"
  by (induction counties) simp_all

lemma until_failure_all_ok:
  "until_failure (\<lambda>x. Inr (f x)) xs = (map f xs, None)"
  by (induction xs) simp_all

text \<open>
  C4, as the code has it, with every library function free to raise. Each drawing loop
  is a single pass over the elements it goes through, which ends at the first exception:
  it does for each element, once and in order, what the body of the loop does, and the
  axes receive one feature per element passed. They differ in the body. For the
  interstates and the rivers the feature of a record is made from that record's geometry
  alone, so each fetched geometry is handed to the renderer once. For the counties, the
  CWA boundary and the lakes the feature of an element is made from all of \<open>counties\<close>:
  where the geometry library raises nothing, it holds the intersection of the element's
  polygon with every element of \<open>counties\<close> that the polygon intersects, so that the
  loop as a whole goes over all pairs of elements. Where nothing raises, \<open>n\<close> elements
  give \<open>n\<close> features.
\<close>

theorem drawing_loops_single_pass_over_elements:
  "plot_interstates getGeometry ShapelyFeature add_feature obs ax
     = single_pass_reference (interstate_feature getGeometry ShapelyFeature add_feature) obs ax \<and>
   plot_counties Polygon intersects intersection ShapelyFeatures add_feature' counties counties ax'
     = single_pass_reference
         (county_feature Polygon intersects intersection ShapelyFeatures add_feature' counties)
         counties ax' \<and>
   county_feature (\<lambda>geom. Inr (polygon geom)) (\<lambda>c g. Inr (meets c g)) (\<lambda>c g. Inr (common c g))
       (\<lambda>geoms. Inr (feature geoms)) (\<lambda>f. Inr ()) counties geom
     = Inr (feature (map (common (polygon geom)) (filter (meets (polygon geom)) counties))) \<and>
   plot_counties (\<lambda>geom. Inr (polygon geom)) (\<lambda>c g. Inr (meets c g)) (\<lambda>c g. Inr (common c g))
       (\<lambda>geoms. Inr (feature geoms)) (\<lambda>f. Inr ()) counties counties ax'
     = (ax' @ map (\<lambda>geom. feature (map (common (polygon geom))
                                      (filter (meets (polygon geom)) counties))) counties,
        None) \<and>
   plot_interstates (\<lambda>ob. Inr (geo ob)) (\<lambda>g. Inr (line_feature g)) (\<lambda>f. Inr ()) obs ax
     = (ax @ map (\<lambda>ob. line_feature (geo ob)) obs, None)"
proof -
  have body: "county_feature (\<lambda>geom. Inr (polygon geom)) (\<lambda>c g. Inr (meets c g))
       (\<lambda>c g. Inr (common c g)) (\<lambda>geoms. Inr (feature geoms)) (\<lambda>f. Inr ()) counties
     = (\<lambda>geom. Inr (feature (map (common (polygon geom))
                               (filter (meets (polygon geom)) counties))))"
    by (rule ext) (simp add: county_feature_def feature_geoms_closed)
  have line: "interstate_feature (\<lambda>ob. Inr (geo ob)) (\<lambda>g. Inr (line_feature g)) (\<lambda>f. Inr ())
     = (\<lambda>ob. Inr (line_feature (geo ob)))"
    by (rule ext) (simp add: interstate_feature_def)
  show ?thesis
    by (simp add: plot_counties_single_pass plot_interstates_single_pass body line
        single_pass_reference_def until_failure_all_ok)
qed

text \<open>
  C4, as the claim states it, fails. For two fetched counties that overlap, here the
  intervals from 0 to 2 and from 1 to 3, the county loop hands the renderer four
  geometries, among them twice the overlap from 1 to 2, which was never fetched; a pass
  that hands each fetched geometry to the renderer once hands over the two fetched ones.
\<close>

theorem county_plot_differs_from_single_pass:
  "plot_counties Inr interval_intersects interval_intersection Inr (\<lambda>f. Inr ())
     [(0, 2), (1, 3)] [(0, 2), (1, 3)] []
     = ([[(0, 2), (1, 2)], [(1, 2), (1, 3)]], None) \<and>
   single_pass_reference (\<lambda>geom. Inr [geom]) [(0, 2), (1, 3) :: int \<times> int] []
     = ([[(0, 2)], [(1, 3)]], None) \<and>
   plot_counties Inr interval_intersects interval_intersection Inr (\<lambda>f. Inr ())
     [(0, 2), (1, 3)] [(0, 2), (1, 3)] []
     \<noteq> single_pass_reference (\<lambda>geom. Inr [geom]) [(0, 2), (1, 3)] []"
  by (simp add: county_feature_def interval_intersects_def interval_intersection_def
      single_pass_reference_def)


section \<open>The order of the stages\<close>




































section \<open>Properties of \<open>get_goes_image\<close>\<close>

lemma py_index_in_range:
  "0 \<le> i \<Longrightarrow> i < int (length xs) \<Longrightarrow> py_index xs i = Inr (xs ! nat i)"
  by (simp add: py_index_def)

lemma py_index_length: "py_index xs (int (length xs)) = Inl IndexError"
  by (simp add: py_index_def)

lemma file_num_nonneg: "0 \<le> file_num datasets"
  by (simp add: file_num_def)

lemma file_num_short: "length datasets < 10 \<Longrightarrow> file_num datasets = int (length datasets)"
  by (simp add: file_num_def)

lemma file_num_valid_iff:
  "(\<exists>ds. py_index datasets (file_num datasets) = Inr ds) \<longleftrightarrow> 10 < length datasets"
  by (auto simp: py_index_def file_num_def)

text \<open>
  C8. The claim: for every catalog, \<open>file_num\<close> is a valid index into \<open>cat.datasets\<close>,
  in particular when the catalog holds fewer than 10 datasets. On the code the opposite
  happens: for a catalog of three datasets \<open>file_num\<close> is 3, one past the last index, and
  \<open>cat.datasets[3]\<close> raises IndexError, so \<open>get_goes_image\<close> returns no dataset.
\<close>

theorem get_goes_image_short_catalog_IndexError:
  "file_num [''OR_ABI_1.nc'', ''OR_ABI_2.nc'', ''OR_ABI_3.nc''] = 3 \<and>
   get_goes_image (\<lambda>region channel date. Inr [''OR_ABI_1.nc'', ''OR_ABI_2.nc'', ''OR_ABI_3.nc''])
     (\<lambda>ds. Inr ds) (0::nat) 14 ''CONUS'' = Inl IndexError"
  by (simp add: get_goes_image_def file_num_def py_index_def)


section \<open>The two temperature layers\<close>

lemma fgt_or_fle_32: "(fgt x 32 \<or> fle x 32) \<longleftrightarrow> x \<noteq> NaN"
  by (cases x) auto

lemma not_fgt_and_fle_32: "\<not> (fgt x 32 \<and> fle x 32)"
  by (cases x) auto

lemma layers_disjoint: "set (obs_data df) \<inter> set (obs2_data df) = {}"
  using not_fgt_and_fle_32 by (auto simp: obs_data_def obs2_data_def)

lemma layers_mset:
  "mset (obs_data df) + mset (obs2_data df) = mset (filter (\<lambda>r. tmpf r \<noteq> NaN) df)"
proof (induction df)
  case Nil
  then show ?case by (simp add: obs_data_def obs2_data_def)
next
  case (Cons r df)
  from fgt_or_fle_32 [of "tmpf r"] not_fgt_and_fle_32 [of "tmpf r"] Cons show ?case
    by (auto simp: obs_data_def obs2_data_def)
qed

text \<open>
  C9, as the code has it. The data of the two layers, \<open>df[df.tmpf > 32]\<close> and
  \<open>df[df.tmpf <= 32]\<close>, have no row in common, and together they hold, each once, the
  rows of the CONUS subset whose \<open>tmpf\<close> is not NaN. A row whose temperature is missing
  is in neither layer.
\<close>

theorem temperature_layers_split_rows_with_a_temperature:
  "set (obs_data (conus df)) \<inter> set (obs2_data (conus df)) = {} \<and>
   mset (obs_data (conus df)) + mset (obs2_data (conus df))
     = mset (filter (\<lambda>r. tmpf r \<noteq> NaN) (conus df))"
  by (simp add: layers_disjoint layers_mset)

text \<open>
  C9, as the claim states it, fails: a station over the CONUS that reports no temperature
  is a row of the subset and is in neither layer.
\<close>

theorem missing_temperature_in_neither_layer:
  "conus [\<lparr>station_id = ''KDEN'', latitude = Finite 39.85, longitude = Finite (- 104.65), tmpf = NaN\<rparr>]
     = [\<lparr>station_id = ''KDEN'', latitude = Finite 39.85, longitude = Finite (- 104.65), tmpf = NaN\<rparr>] \<and>
   obs_data (conus [\<lparr>station_id = ''KDEN'', latitude = Finite 39.85, longitude = Finite (- 104.65), tmpf = NaN\<rparr>])
     = [] \<and>
   obs2_data (conus [\<lparr>station_id = ''KDEN'', latitude = Finite 39.85, longitude = Finite (- 104.65), tmpf = NaN\<rparr>])
     = []"
  by (simp add: conus_def obs_data_def obs2_data_def)


section \<open>The city filter\<close>

lemma city_filter_step:
  "city_filter (ob # cities) (citylist, cityname) = Inr r \<Longrightarrow>
   city_filter cities
     (if plotted_city ob then (citylist @ [geometry ob], cityname @ [name ob])
      else (citylist, cityname)) = Inr r"
  by (auto simp: plotted_city_def split: if_splits sum.splits)

lemma city_filter_closed:
  "city_filter cities (citylist, cityname) = Inr (citylist', cityname') \<Longrightarrow>
   citylist' = citylist @ map geometry (filter plotted_city cities) \<and>
   cityname' = cityname @ map name (filter plotted_city cities)"
proof (induction cities arbitrary: citylist cityname)
  case Nil
  then show ?case by simp
next
  case (Cons ob cities)
  show ?case
  proof (cases "plotted_city ob")
    case True
    with city_filter_step [OF Cons.prems]
    have "city_filter cities (citylist @ [geometry ob], cityname @ [name ob])
        = Inr (citylist', cityname')"
      by simp
    from Cons.IH [OF this] True show ?thesis by simp
  next
    case False
    with city_filter_step [OF Cons.prems]
    have "city_filter cities (citylist, cityname) = Inr (citylist', cityname')"
      by simp
    from Cons.IH [OF this] False show ?thesis by simp
  qed
qed

lemma annotate_loop_enumerate:
  "k + length names \<le> length citylist \<Longrightarrow>
   annotate_loop citylist (enumerate k names) annotations
     = Inr (annotations @ zip names (drop k citylist))"
proof (induction names arbitrary: k annotations)
  case Nil
  then show ?case by simp
next
  case (Cons label names)
  from Cons.prems have k: "k < length citylist" by simp
  then have idx: "py_index citylist (int k) = Inr (citylist ! k)"
    by (simp add: py_index_def)
  from Cons.prems have "Suc k + length names \<le> length citylist" by simp
  from Cons.IH [OF this] k show ?case
    by (simp add: idx Cons_nth_drop_Suc [symmetric])
qed

text \<open>
  C10. When the filter loop has run through the returned cities, \<open>citylist\<close> and
  \<open>cityname\<close> have the same length and, index by index, hold the geometry and the name
  of the same record: the records that pass the three tests (population string not empty,
  \<open>prog_disc\<close> above 50, population parsed as an integer above 5000), each once, in the
  order returned, and no other. The plotting that follows draws one marker per entry of
  \<open>citylist\<close>, and its indexing \<open>citylist[i]\<close> never fails and labels each marker with
  the name of its own record.
\<close>

theorem city_filter_pairs:
  assumes "city_filter cities ([], []) = Inr (citylist, cityname)"
  shows "length citylist = length cityname \<and>
         zip citylist cityname
           = map (\<lambda>ob. (geometry ob, name ob)) (filter plotted_city cities) \<and>
         plot_cities citylist cityname
           = Inr (map geometry (filter plotted_city cities),
                  map (\<lambda>ob. (name ob, geometry ob)) (filter plotted_city cities))"
proof -
  let ?sel = "filter plotted_city cities"
  from city_filter_closed [OF assms]
  have cl: "citylist = map geometry ?sel" and cn: "cityname = map name ?sel"
    by simp_all
  have len: "length citylist = length cityname"
    by (simp add: cl cn)
  have z: "zip citylist cityname = map (\<lambda>ob. (geometry ob, name ob)) ?sel"
    by (simp add: cl cn zip_map_map zip_same_conv_map)
  have "annotate_loop citylist (enumerate 0 cityname) []
      = Inr ([] @ zip cityname (drop 0 citylist))"
    by (rule annotate_loop_enumerate) (simp add: len)
  also have "zip cityname (drop 0 citylist) = map (\<lambda>ob. (name ob, geometry ob)) ?sel"
    by (simp add: cl cn zip_map_map zip_same_conv_map)
  finally have "plot_cities citylist cityname
      = Inr (citylist, map (\<lambda>ob. (name ob, geometry ob)) ?sel)"
    by (simp add: plot_cities_def)
  with len z show ?thesis by (simp add: cl)
qed

text \<open>
  Five cities around Boulder: Ward has no population, Boulder's disclosure level is too
  low, Lyons is too small; Denver and Greeley are plotted.
\<close>

theorem city_filter_pairs_witness:
  "city_filter
     [\<lparr>population = ''619968'', prog_disc = 120, name = ''Denver'', geometry = (-10499::int, 3974::int)\<rparr>,
      \<lparr>population = [], prog_disc = 90, name = ''Ward'', geometry = (-10551, 4007)\<rparr>,
      \<lparr>population = ''108090'', prog_disc = 40, name = ''Boulder'', geometry = (-10527, 4001)\<rparr>,
      \<lparr>population = ''1200'', prog_disc = 70, name = ''Lyons'', geometry = (-10527, 4022)\<rparr>,
      \<lparr>population = ''92889'', prog_disc = 80, name = ''Greeley'', geometry = (-10470, 4042)\<rparr>]
     ([], [])
     = Inr ([(-10499, 3974), (-10470, 4042)], [''Denver'', ''Greeley'']) \<and>
   zip [(-10499::int, 3974::int), (-10470, 4042)] [''Denver'', ''Greeley'']
     = [((-10499, 3974), ''Denver''), ((-10470, 4042), ''Greeley'')] \<and>
   plot_cities [(-10499::int, 3974::int), (-10470, 4042)] [''Denver'', ''Greeley'']
     = Inr ([(-10499, 3974), (-10470, 4042)],
            [(''Denver'', (-10499, 3974)), (''Greeley'', (-10470, 4042))])"
proof -
  let ?cities =
    "[\<lparr>population = ''619968'', prog_disc = 120, name = ''Denver'', geometry = (-10499::int, 3974::int)\<rparr>,
      \<lparr>population = [], prog_disc = 90, name = ''Ward'', geometry = (-10551, 4007)\<rparr>,
      \<lparr>population = ''108090'', prog_disc = 40, name = ''Boulder'', geometry = (-10527, 4001)\<rparr>,
      \<lparr>population = ''1200'', prog_disc = 70, name = ''Lyons'', geometry = (-10527, 4022)\<rparr>,
      \<lparr>population = ''92889'', prog_disc = 80, name = ''Greeley'', geometry = (-10470, 4042)\<rparr>]"
  have run: "city_filter ?cities ([], [])
      = Inr ([(-10499, 3974), (-10470, 4042)], [''Denver'', ''Greeley''])"
    by code_simp
  have sel: "filter plotted_city ?cities =
      [\<lparr>population = ''619968'', prog_disc = 120, name = ''Denver'', geometry = (-10499, 3974)\<rparr>,
       \<lparr>population = ''92889'', prog_disc = 80, name = ''Greeley'', geometry = (-10470, 4042)\<rparr>]"
    by code_simp
  from city_filter_pairs [OF run] have
    "plot_cities [(-10499::int, 3974::int), (-10470, 4042)] [''Denver'', ''Greeley'']
       = Inr ([(-10499, 3974), (-10470, 4042)],
              [(''Denver'', (-10499, 3974)), (''Greeley'', (-10470, 4042))])"
    unfolding sel by simp
  with run show ?thesis by simp
qed


end
